theory Spec2Isabelle
  imports Complex_Main
begin

text \<open>
  The game logic of the Matter.js demo: \<open>BodyWrapper\<close>, which wraps a body around the
  edges of the simulation area; \<open>GameManager\<close>, which keeps the score, the attempts
  and the game-over flag; the part of \<open>Engine\<close> that adds, removes and lists bodies;
  and \<open>BoundaryBox\<close>, the goal box that collects the bodies which enter it, once by
  polling after every update and once by listening to collisions.
\<close>

section \<open>Data model\<close>

text \<open>
  The program is TypeScript on top of the Matter.js physics library. A TypeScript
  \<open>number\<close> is an IEEE double; its value is modelled as a \<^typ>\<open>real\<close>, and the
  comparisons of doubles are the comparisons of their values. There is no NaN and no
  infinity in the model.

  A sum or a difference of two doubles is rounded to the nearest double, ties going to
  the even significand. \<open>fl\<close> is that rounding, for results within the range of the
  finite doubles: 53 significant bits, and below \<open>2 ^ - 1022\<close> the fixed spacing of the
  subnormal numbers. \<open>dsub\<close> and \<open>dadd\<close> are the \<open>-\<close> and the \<open>+\<close> of the program
  with this rounding. They are written out in \<open>wrapBody\<close>, where wrapping a position
  twice depends on the rounding. In the score and in the geometry of the box the sums
  are read without rounding.
\<close>

definition rne :: "real \<Rightarrow> int" where
  "rne y =
     (let f = \<lfloor>y\<rfloor>; r = y - of_int f
      in if r < 1 / 2 then f
         else if 1 / 2 < r then f + 1
         else if even f then f else f + 1)"

definition ulp_exponent :: "real \<Rightarrow> int" where
  "ulp_exponent x = max \<lfloor>log 2 \<bar>x\<bar>\<rfloor> (- 1022) - 52"

definition fl :: "real \<Rightarrow> real" where
  "fl x =
     (if x = 0 then 0
      else of_int (rne (x / 2 powr of_int (ulp_exponent x))) * 2 powr of_int (ulp_exponent x))"

definition dsub :: "real \<Rightarrow> real \<Rightarrow> real" where
  "dsub a b = fl (a - b)"

definition dadd :: "real \<Rightarrow> real \<Rightarrow> real" where
  "dadd a b = fl (a + b)"

text \<open>
  A Matter.js vector \<open>{x, y}\<close> is the record \<open>vector\<close>; the fields are called
  \<open>vx\<close> and \<open>vy\<close>.
\<close>

record vector =
  vx :: real
  vy :: real

text \<open>
  Of a \<open>Matter.Body\<close> the modelled code reads \<open>id\<close>, \<open>position\<close> and \<open>isStatic\<close>.
  Matter.js gives every body its own \<open>id\<close>, so two different body objects are two
  different records, and comparing records is comparing object identities.
\<close>

record body =
  body_id :: nat
  position :: vector
  isStatic :: bool

text \<open>\<open>Matter.Body.setPosition(body, p)\<close>: the body is moved so that its position is \<open>p\<close>.\<close>

definition setPosition :: "body \<Rightarrow> vector \<Rightarrow> body" where
  "setPosition b p = b\<lparr>position := p\<rparr>"

section \<open>BodyWrapper\<close>

text \<open>The bounds \<open>{min: {x, y}, max: {x, y}}\<close> of the simulation area.\<close>

record bounds_t =
  min_pt :: vector
  max_pt :: vector

record body_wrapper =
  bounds :: bounds_t

definition setBounds :: "bounds_t \<Rightarrow> body_wrapper \<Rightarrow> body_wrapper" where
  "setBounds bnds w = w\<lparr>bounds := bnds\<rparr>"

text \<open>
  \<open>wrapBody\<close>: the first \<open>if\<close>/\<open>else if\<close> moves the body along the x axis, the
  second one, which reads the position the first one has left, along the y axis.
\<close>

definition wrapBody_x :: "body_wrapper \<Rightarrow> body \<Rightarrow> body" where
  "wrapBody_x w b =
     (if vx (position b) < vx (min_pt (bounds w)) then
        setPosition b
          \<lparr>vx = dsub (vx (max_pt (bounds w))) (dsub (vx (min_pt (bounds w))) (vx (position b))),
           vy = vy (position b)\<rparr>
      else if vx (position b) > vx (max_pt (bounds w)) then
        setPosition b
          \<lparr>vx = dadd (vx (min_pt (bounds w))) (dsub (vx (position b)) (vx (max_pt (bounds w)))),
           vy = vy (position b)\<rparr>
      else b)"

definition wrapBody_y :: "body_wrapper \<Rightarrow> body \<Rightarrow> body" where
  "wrapBody_y w b =
     (if vy (position b) < vy (min_pt (bounds w)) then
        setPosition b
          \<lparr>vx = vx (position b),
           vy = dsub (vy (max_pt (bounds w))) (dsub (vy (min_pt (bounds w))) (vy (position b)))\<rparr>
      else if vy (position b) > vy (max_pt (bounds w)) then
        setPosition b
          \<lparr>vx = vx (position b),
           vy = dadd (vy (min_pt (bounds w))) (dsub (vy (position b)) (vy (max_pt (bounds w))))\<rparr>
      else b)"

definition wrapBody :: "body_wrapper \<Rightarrow> body \<Rightarrow> body" where
  "wrapBody w b = wrapBody_y w (wrapBody_x w b)"

section \<open>The simulation state\<close>

text \<open>
  An \<open>Engine\<close> object is a reference; the bodies of its world, in the order of
  \<open>Matter.Composite.allBodies\<close>, are kept in a store indexed by the reference, so that
  the \<open>GameManager\<close> and the \<open>BoundaryBox\<close> see the removals of each other when they
  hold the same engine. The program adds bodies to the world itself only, never to a
  child composite, so the world is a flat list.
\<close>

type_synonym engine_ref = nat
type_synonym callback_ref = nat

text \<open>The lines written by \<open>console.log\<close>, with the values they print.\<close>

datatype log_entry =
    InitialBodyCountSet real
  | ScoreIncreased real
  | AttemptMade real
  | GameOverAllCollected
  | BodyEntered nat
  | BoxA real real real real real real

text \<open>
  The fields of the singleton \<open>GameManager\<close>. Its six DOM elements are the record
  \<open>dom\<close> below: the constructor casts each of them to \<open>HTMLElement\<close>, and the model
  takes them to exist.
\<close>

record game_manager =
  score :: real
  attempts :: real
  engine :: "engine_ref option"
  initialBodyCount :: real
  isGameOver :: bool
  restartCallback :: "callback_ref option"

text \<open>
  What the page shows: the number in \<open>Score: n\<close>, the number in \<open>Attempts: n\<close>, the
  number in \<open>Final Score: n\<close>, the attempts and the score from which the line
  \<open>Total Attempts: a (p%)\<close> is printed, and whether the modal is visible
  (opacity 1 and pointer events on).
\<close>

record dom =
  scoreElement :: real
  attemptsElement :: real
  finalScoreElement :: real
  finalAttemptsElement :: "real \<times> real"
  gameOverModal :: bool

record state =
  worlds :: "engine_ref \<Rightarrow> body list"
  gm :: game_manager
  page :: dom
  console :: "log_entry list"
  nextId :: nat

definition console_log :: "log_entry \<Rightarrow> state \<Rightarrow> state" where
  "console_log l s = s\<lparr>console := console s @ [l]\<rparr>"

section \<open>Engine\<close>

text \<open>
  \<open>Matter.Composite.add\<close> pushes the bodies onto the world's list;
  \<open>Matter.Composite.remove\<close> looks the body up by identity and removes it when it is
  found, and does nothing otherwise.
\<close>

definition addBody :: "engine_ref \<Rightarrow> body list \<Rightarrow> state \<Rightarrow> state" where
  "addBody e bs s = s\<lparr>worlds := (worlds s)(e := worlds s e @ bs)\<rparr>"

definition removeBody :: "engine_ref \<Rightarrow> body \<Rightarrow> state \<Rightarrow> state" where
  "removeBody e b s = s\<lparr>worlds := (worlds s)(e := remove1 b (worlds s e))\<rparr>"

definition getAllBodies :: "engine_ref \<Rightarrow> state \<Rightarrow> body list" where
  "getAllBodies e s = worlds s e"

section \<open>GameManager\<close>

definition setEngine :: "engine_ref \<Rightarrow> state \<Rightarrow> state" where
  "setEngine e s = s\<lparr>gm := (gm s)\<lparr>engine := Some e\<rparr>\<rparr>"

definition setRestartCallback :: "callback_ref \<Rightarrow> state \<Rightarrow> state" where
  "setRestartCallback cb s = s\<lparr>gm := (gm s)\<lparr>restartCallback := Some cb\<rparr>\<rparr>"

definition setInitialBodyCount :: "real \<Rightarrow> state \<Rightarrow> state" where
  "setInitialBodyCount count s =
     console_log (InitialBodyCountSet count) (s\<lparr>gm := (gm s)\<lparr>initialBodyCount := count\<rparr>\<rparr>)"

definition updateScoreDisplay :: "state \<Rightarrow> state" where
  "updateScoreDisplay s = s\<lparr>page := (page s)\<lparr>scoreElement := score (gm s)\<rparr>\<rparr>"

definition updateAttemptsDisplay :: "state \<Rightarrow> state" where
  "updateAttemptsDisplay s = s\<lparr>page := (page s)\<lparr>attemptsElement := attempts (gm s)\<rparr>\<rparr>"

definition showGameOverModal :: "state \<Rightarrow> state" where
  "showGameOverModal s =
     s\<lparr>page := (page s)
        \<lparr>finalScoreElement := score (gm s),
         finalAttemptsElement := (attempts (gm s), score (gm s)),
         gameOverModal := True\<rparr>\<rparr>"

definition hideGameOverModal :: "state \<Rightarrow> state" where
  "hideGameOverModal s = s\<lparr>page := (page s)\<lparr>gameOverModal := False\<rparr>\<rparr>"

definition checkGameOver :: "state \<Rightarrow> state" where
  "checkGameOver s =
     (if isGameOver (gm s) then s
      else
        case engine (gm s) of
          None \<Rightarrow> s
        | Some e \<Rightarrow>
            let nonStaticBodies = filter (\<lambda>b. \<not> isStatic b) (getAllBodies e s) in
            if length nonStaticBodies = 0 \<and> initialBodyCount (gm s) > 0 then
              showGameOverModal
                (console_log GameOverAllCollected (s\<lparr>gm := (gm s)\<lparr>isGameOver := True\<rparr>\<rparr>))
            else s)"

definition addScore :: "real \<Rightarrow> state \<Rightarrow> state" where
  "addScore points s =
     checkGameOver
       (console_log (ScoreIncreased (score (gm s) + points))
          (updateScoreDisplay (s\<lparr>gm := (gm s)\<lparr>score := score (gm s) + points\<rparr>\<rparr>)))"

definition addAttempt :: "real \<Rightarrow> state \<Rightarrow> state" where
  "addAttempt count s =
     console_log (AttemptMade (attempts (gm s) + count))
       (updateAttemptsDisplay (s\<lparr>gm := (gm s)\<lparr>attempts := attempts (gm s) + count\<rparr>\<rparr>))"

definition getScore :: "state \<Rightarrow> real" where
  "getScore s = score (gm s)"

definition getAttempts :: "state \<Rightarrow> real" where
  "getAttempts s = attempts (gm s)"

definition resetScore :: "state \<Rightarrow> state" where
  "resetScore s = updateScoreDisplay (s\<lparr>gm := (gm s)\<lparr>score := 0\<rparr>\<rparr>)"

definition resetAttempts :: "state \<Rightarrow> state" where
  "resetAttempts s = updateAttemptsDisplay (s\<lparr>gm := (gm s)\<lparr>attempts := 0\<rparr>\<rparr>)"

definition resetGame :: "state \<Rightarrow> state" where
  "resetGame s =
     (let s1 = resetScore s; s2 = resetAttempts s1
      in s2\<lparr>gm := (gm s2)\<lparr>isGameOver := False\<rparr>\<rparr>)"

text \<open>
  A sequence of calls made on the \<open>GameManager\<close> and on the engine by the rest of the
  program, run from left to right.
\<close>

datatype call =
    AddScore real
  | AddAttempt real
  | CheckGameOver
  | SetInitialBodyCount real
  | SetEngine engine_ref
  | AddBody engine_ref "body list"
  | RemoveBody engine_ref body
  | ResetGame

fun run_call :: "call \<Rightarrow> state \<Rightarrow> state" where
  "run_call (AddScore points) s = addScore points s"
| "run_call (AddAttempt count) s = addAttempt count s"
| "run_call CheckGameOver s = checkGameOver s"
| "run_call (SetInitialBodyCount count) s = setInitialBodyCount count s"
| "run_call (SetEngine e) s = setEngine e s"
| "run_call (AddBody e bs) s = addBody e bs s"
| "run_call (RemoveBody e b) s = removeBody e b s"
| "run_call ResetGame s = resetGame s"

fun run_calls :: "call list \<Rightarrow> state \<Rightarrow> state" where
  "run_calls [] s = s"
| "run_calls (c # cs) s = run_calls cs (run_call c s)"

fun is_reset :: "call \<Rightarrow> bool" where
  "is_reset ResetGame = True"
| "is_reset _ = False"

section \<open>BoundaryBox\<close>

record box_dimensions =
  box_x :: real
  box_y :: real
  box_width :: real
  box_height :: real

record boundary_box =
  bb_engine :: engine_ref
  boxParts :: "body list"
  width :: real
  height :: real
  boxDimensions :: box_dimensions

text \<open>
  \<open>Matter.Bodies.rectangle(x, y, w, h, {isStatic: true})\<close>: a new static body centred at
  \<open>(x, y)\<close>, with the next free id.
\<close>

definition static_rectangle :: "real \<Rightarrow> real \<Rightarrow> state \<Rightarrow> body \<times> state" where
  "static_rectangle cx cy s =
     (\<lparr>body_id = nextId s, position = \<lparr>vx = cx, vy = cy\<rparr>, isStatic = True\<rparr>,
      s\<lparr>nextId := Suc (nextId s)\<rparr>)"

definition createBoxParts :: "boundary_box \<Rightarrow> state \<Rightarrow> boundary_box \<times> state" where
  "createBoxParts bb s =
     (let BoxA_width = 180;
          BoxA_height = 140;
          BoxA_x_position = width bb - (50.5 / 1.2 + BoxA_width / 2);
          BoxA_y_position = height bb - (50.5 / 1.2 + BoxA_height / 2);
          dims = \<lparr>box_x = BoxA_x_position - BoxA_width / 2,
                  box_y = BoxA_y_position - BoxA_height / 2,
                  box_width = BoxA_width,
                  box_height = BoxA_height\<rparr>;
          s0 = console_log
                 (BoxA (width bb) (height bb) BoxA_x_position BoxA_y_position
                    BoxA_width BoxA_height) s;
          (bottomBox, s1) = static_rectangle BoxA_x_position (BoxA_y_position + BoxA_height / 2) s0;
          (leftBox, s2) = static_rectangle (BoxA_x_position - BoxA_width / 2) BoxA_y_position s1;
          (rightBox, s3) = static_rectangle (BoxA_x_position + BoxA_width / 2) BoxA_y_position s2;
          parts = boxParts bb @ [bottomBox, leftBox, rightBox]
      in (bb\<lparr>boxDimensions := dims, boxParts := parts\<rparr>, addBody (bb_engine bb) parts s3))"

text \<open>The settled test of the polling path: the box without its upper 85 units.\<close>

definition isBodyInBox :: "boundary_box \<Rightarrow> body \<Rightarrow> bool" where
  "isBodyInBox bb b =
     (vx (position b) > box_x (boxDimensions bb) \<and>
      vx (position b) < box_x (boxDimensions bb) + box_width (boxDimensions bb) \<and>
      vy (position b) > box_y (boxDimensions bb) + 85 \<and>
      vy (position b) < box_y (boxDimensions bb) + box_height (boxDimensions bb))"

text \<open>The strict test of the collision path: the whole box.\<close>

definition isBodyInsideBox :: "boundary_box \<Rightarrow> body \<Rightarrow> bool" where
  "isBodyInsideBox bb b =
     (vx (position b) > box_x (boxDimensions bb) \<and>
      vx (position b) < box_x (boxDimensions bb) + box_width (boxDimensions bb) \<and>
      vy (position b) > box_y (boxDimensions bb) \<and>
      vy (position b) < box_y (boxDimensions bb) + box_height (boxDimensions bb))"

text \<open>
  \<open>checkBodiesInBox\<close>, run after every update of the engine: the loop goes over the
  non-static bodies that were in the world when the pass started.
\<close>

fun checkBodiesInBox_loop :: "boundary_box \<Rightarrow> body list \<Rightarrow> state \<Rightarrow> state" where
  "checkBodiesInBox_loop bb [] s = s"
| "checkBodiesInBox_loop bb (b # bodiesToCheck) s =
     checkBodiesInBox_loop bb bodiesToCheck
       (if isBodyInBox bb b then
          console_log (BodyEntered (body_id b)) (addScore 1 (removeBody (bb_engine bb) b s))
        else s)"

definition checkBodiesInBox :: "boundary_box \<Rightarrow> state \<Rightarrow> state" where
  "checkBodiesInBox bb s =
     (let allBodies = getAllBodies (bb_engine bb) s;
          bodiesToCheck = filter (\<lambda>b. \<not> isStatic b) allBodies
      in checkBodiesInBox_loop bb bodiesToCheck s)"

text \<open>
  The listener that \<open>handleCollision\<close> registers for \<open>collisionStart\<close>, on the pairs
  \<open>(bodyA, bodyB)\<close> of one event.
\<close>

fun handleCollision :: "boundary_box \<Rightarrow> (body \<times> body) list \<Rightarrow> state \<Rightarrow> state" where
  "handleCollision bb [] s = s"
| "handleCollision bb ((bodyA, bodyB) # pairs) s =
     handleCollision bb pairs
       (let isBoxPartA = bodyA \<in> set (boxParts bb);
            isBoxPartB = bodyB \<in> set (boxParts bb)
        in if \<not> isBoxPartA \<and> \<not> isBoxPartB then s
           else
             let otherBody = (if isBoxPartA then bodyB else bodyA)
             in if isStatic otherBody then s
                else if isBodyInsideBox bb otherBody then
                  checkGameOver (removeBody (bb_engine bb) otherBody (addScore 1 s))
                else s)"

section \<open>Example inputs\<close>

text \<open>
  The goal box of the scenarios, \<open>x\<close> from 700 to 880 and \<open>y\<close> from 370 to 510, with
  its bottom, left and right walls, on engine 0.
\<close>

definition example_bottomBox :: body where
  "example_bottomBox = \<lparr>body_id = 1, position = \<lparr>vx = 790, vy = 510\<rparr>, isStatic = True\<rparr>"

definition example_leftBox :: body where
  "example_leftBox = \<lparr>body_id = 2, position = \<lparr>vx = 700, vy = 440\<rparr>, isStatic = True\<rparr>"

definition example_rightBox :: body where
  "example_rightBox = \<lparr>body_id = 3, position = \<lparr>vx = 880, vy = 440\<rparr>, isStatic = True\<rparr>"

definition example_walls :: "body list" where
  "example_walls = [example_bottomBox, example_leftBox, example_rightBox]"

definition example_box :: boundary_box where
  "example_box =
     \<lparr>bb_engine = 0, boxParts = example_walls,
      width = 880 + 505 / 12, height = 510 + 505 / 12,
      boxDimensions = \<lparr>box_x = 700, box_y = 370, box_width = 180, box_height = 140\<rparr>\<rparr>"

text \<open>A movable body with the given id and centre.\<close>

definition example_ball :: "nat \<Rightarrow> real \<Rightarrow> real \<Rightarrow> body" where
  "example_ball i cx cy = \<lparr>body_id = i, position = \<lparr>vx = cx, vy = cy\<rparr>, isStatic = False\<rparr>"

text \<open>
  A fresh game on engine 0, whose world holds the walls of the box and the given bodies.
\<close>

definition example_state :: "body list \<Rightarrow> state" where
  "example_state bs =
     \<lparr>worlds = (\<lambda>e. if e = 0 then example_walls @ bs else []),
      gm = \<lparr>score = 0, attempts = 0, engine = Some 0, initialBodyCount = 0,
            isGameOver = False, restartCallback = None\<rparr>,
      page = \<lparr>scoreElement = 0, attemptsElement = 0, finalScoreElement = 0,
              finalAttemptsElement = (0, 0), gameOverModal = False\<rparr>,
      console = [],
      nextId = 100\<rparr>"

definition example_bounds :: body_wrapper where
  "example_bounds = \<lparr>bounds = \<lparr>min_pt = \<lparr>vx = 0, vy = 0\<rparr>, max_pt = \<lparr>vx = 800, vy = 600\<rparr>\<rparr>\<rparr>"






section \<open>The effect of the operations on the state\<close>

lemma score_checkGameOver: "score (gm (checkGameOver s)) = score (gm s)"
  by (simp add: checkGameOver_def showGameOverModal_def console_log_def Let_def
      split: option.splits)

lemma worlds_checkGameOver: "worlds (checkGameOver s) = worlds s"
  by (simp add: checkGameOver_def showGameOverModal_def console_log_def Let_def
      split: option.splits)

lemma score_addScore: "score (gm (addScore points s)) = score (gm s) + points"
  by (simp add: addScore_def score_checkGameOver console_log_def updateScoreDisplay_def)

lemma worlds_addScore: "worlds (addScore points s) = worlds s"
  by (simp add: addScore_def worlds_checkGameOver console_log_def updateScoreDisplay_def)

lemma worlds_removeBody: "worlds (removeBody e b s) = (worlds s)(e := remove1 b (worlds s e))"
  by (simp add: removeBody_def)

lemma gm_removeBody: "gm (removeBody e b s) = gm s"
  by (simp add: removeBody_def)

lemma worlds_console_log: "worlds (console_log l s) = worlds s"
  by (simp add: console_log_def)

lemma gm_console_log: "gm (console_log l s) = gm s"
  by (simp add: console_log_def)

lemma worlds_example_state: "worlds (example_state bs) 0 = example_walls @ bs"
  by (simp add: example_state_def)

lemma score_example_state: "score (gm (example_state bs)) = 0"
  by (simp add: example_state_def)

lemma static_example_walls: "filter (\<lambda>b. \<not> isStatic b) example_walls = []"
  by (simp add: example_walls_def example_bottomBox_def example_leftBox_def example_rightBox_def)

lemma bb_engine_example_box: "bb_engine example_box = 0"
  by (simp add: example_box_def)

lemma ball_not_wall: "example_ball i cx cy \<notin> set example_walls"
  by (auto simp add: example_ball_def example_walls_def example_bottomBox_def
      example_leftBox_def example_rightBox_def)

lemma isStatic_example_ball: "isStatic (example_ball i cx cy) = False"
  by (simp add: example_ball_def)

section \<open>Rounding to a double\<close>

text \<open>
  Within a binade, from \<open>2 ^ k\<close> up to \<open>2 ^ (k + 1)\<close>, the doubles are the multiples of
  \<open>2 ^ (k - 52)\<close>.
\<close>

lemma rne_of_int: "rne (of_int n) = n"
  by (simp add: rne_def)

lemma ulp_exponent_at:
  assumes "2 powr of_int k \<le> \<bar>x\<bar>" and "\<bar>x\<bar> < 2 powr of_int (k + 1)" and "- 1022 \<le> k"
  shows "ulp_exponent x = k - 52"
proof -
  have pos: "0 < \<bar>x\<bar>"
    using assms(1) powr_gt_zero [of 2 "of_int k"] by linarith
  have "\<lfloor>log 2 \<bar>x\<bar>\<rfloor> = k"
    using assms(1,2) pos by (subst floor_log_eq_powr_iff) simp_all
  with assms(3) show ?thesis by (simp add: ulp_exponent_def)
qed

lemma fl_at:
  assumes "2 powr of_int k \<le> \<bar>x\<bar>" and "\<bar>x\<bar> < 2 powr of_int (k + 1)" and "- 1022 \<le> k"
  shows "fl x = of_int (rne (x / 2 powr of_int (k - 52))) * 2 powr of_int (k - 52)"
proof -
  have "x \<noteq> 0"
    using assms(1) powr_gt_zero [of 2 "of_int k"] by auto
  then show ?thesis
    by (simp add: fl_def ulp_exponent_at [OF assms])
qed

text \<open>An integer below \<open>2 ^ 53\<close> in magnitude is a double.\<close>

lemma fl_int:
  assumes "x \<in> \<int>" and "\<bar>x\<bar> < 2 ^ 53"
  shows "fl x = x"
proof (cases "x = 0")
  case True
  then show ?thesis by (simp add: fl_def)
next
  case False
  from assms(1) obtain n where n: "x = of_int n" by (auto elim: Ints_cases)
  with False have "n \<noteq> 0" by simp
  then have one: "1 \<le> \<bar>x\<bar>" using n by (simp flip: of_int_abs)
  define k where "k = \<lfloor>log 2 \<bar>x\<bar>\<rfloor>"
  have pos: "0 < \<bar>x\<bar>" using one by simp
  have range: "2 powr of_int k \<le> \<bar>x\<bar>" "\<bar>x\<bar> < 2 powr of_int (k + 1)"
    using floor_log_eq_powr_iff [of "\<bar>x\<bar>" 2 k] pos by (simp_all add: k_def)
  have "0 \<le> log 2 \<bar>x\<bar>" using one by simp
  then have k0: "0 \<le> k" by (simp add: k_def)
  have "log 2 \<bar>x\<bar> < 53"
    using assms(2) pos by (simp add: log_less_iff)
  then have k52: "k \<le> 52" by (simp add: k_def floor_le_iff)
  define j where "j = nat (52 - k)"
  have step: "(2::real) powr of_int (k - 52) = 1 / 2 ^ j"
  proof (cases "k = 52")
    case True
    then show ?thesis by (simp add: j_def)
  next
    case False
    with k52 have "\<not> 0 \<le> k - 52" by simp
    with powr_real_of_int [of 2 "k - 52"]
    have "(2::real) powr of_int (k - 52) = inverse (2 ^ nat (- (k - 52)))" by simp
    then show ?thesis by (simp add: j_def inverse_eq_divide)
  qed
  have "x / 2 powr of_int (k - 52) = of_int (n * 2 ^ j)"
    unfolding step n by simp
  then have "rne (x / 2 powr of_int (k - 52)) = n * 2 ^ j"
    by (simp only: rne_of_int)
  moreover have "fl x = of_int (rne (x / 2 powr of_int (k - 52))) * 2 powr of_int (k - 52)"
    using range k0 by (intro fl_at) simp_all
  ultimately show ?thesis unfolding step n by simp
qed

lemma dsub_int: "a \<in> \<int> \<Longrightarrow> b \<in> \<int> \<Longrightarrow> \<bar>a - b\<bar> < 2 ^ 53 \<Longrightarrow> dsub a b = a - b"
  by (simp add: dsub_def fl_int)

lemma dadd_int: "a \<in> \<int> \<Longrightarrow> b \<in> \<int> \<Longrightarrow> \<bar>a + b\<bar> < 2 ^ 53 \<Longrightarrow> dadd a b = a + b"
  by (simp add: dadd_def fl_int)

section \<open>Wrapping a body around the bounds\<close>

lemma wrapBody_vx:
  "vx (position (wrapBody w b)) =
     (if vx (position b) < vx (min_pt (bounds w))
      then dsub (vx (max_pt (bounds w))) (dsub (vx (min_pt (bounds w))) (vx (position b)))
      else if vx (position b) > vx (max_pt (bounds w))
      then dadd (vx (min_pt (bounds w))) (dsub (vx (position b)) (vx (max_pt (bounds w))))
      else vx (position b))"
  by (simp add: wrapBody_def wrapBody_x_def wrapBody_y_def setPosition_def)

lemma wrapBody_vy:
  "vy (position (wrapBody w b)) =
     (if vy (position b) < vy (min_pt (bounds w))
      then dsub (vy (max_pt (bounds w))) (dsub (vy (min_pt (bounds w))) (vy (position b)))
      else if vy (position b) > vy (max_pt (bounds w))
      then dadd (vy (min_pt (bounds w))) (dsub (vy (position b)) (vy (max_pt (bounds w))))
      else vy (position b))"
  by (simp add: wrapBody_def wrapBody_x_def wrapBody_y_def setPosition_def)

text \<open>On integers below \<open>2 ^ 51\<close> in magnitude the two reflections are computed exactly.\<close>

lemma reflect_below_exact:
  assumes "p \<in> \<int>" "lo \<in> \<int>" "hi \<in> \<int>" "\<bar>p\<bar> < 2 ^ 51" "\<bar>lo\<bar> < 2 ^ 51" "\<bar>hi\<bar> < 2 ^ 51"
  shows "dsub hi (dsub lo p) = hi - (lo - p)"
proof -
  have "\<bar>lo - p\<bar> < 2 ^ 53" using assms(4,5) by simp
  then have inner: "dsub lo p = lo - p" using assms(1,2) by (simp add: dsub_int)
  have "lo - p \<in> \<int>" using assms(1,2) by simp
  moreover have "\<bar>hi - (lo - p)\<bar> < 2 ^ 53" using assms(4,5,6) by simp
  ultimately have "dsub hi (lo - p) = hi - (lo - p)" using assms(3) by (simp add: dsub_int)
  with inner show ?thesis by simp
qed

lemma reflect_above_exact:
  assumes "p \<in> \<int>" "lo \<in> \<int>" "hi \<in> \<int>" "\<bar>p\<bar> < 2 ^ 51" "\<bar>lo\<bar> < 2 ^ 51" "\<bar>hi\<bar> < 2 ^ 51"
  shows "dadd lo (dsub p hi) = lo + (p - hi)"
proof -
  have "\<bar>p - hi\<bar> < 2 ^ 53" using assms(4,6) by simp
  then have inner: "dsub p hi = p - hi" using assms(1,3) by (simp add: dsub_int)
  have "p - hi \<in> \<int>" using assms(1,3) by simp
  moreover have "\<bar>lo + (p - hi)\<bar> < 2 ^ 53" using assms(4,5,6) by simp
  ultimately have "dadd lo (p - hi) = lo + (p - hi)" using assms(2) by (simp add: dadd_int)
  with inner show ?thesis by simp
qed

text \<open>
  Claim C4. For a region with \<open>min < max\<close> on both axes (the invariant of a region),
  \<open>wrapBody\<close> treats each axis on its own: a coordinate below \<open>min\<close> becomes
  \<open>max - (min - p)\<close>, a coordinate above \<open>max\<close> becomes \<open>min + (p - max)\<close>, each as the
  program computes it on doubles, and a coordinate within the bounds is unchanged. On
  integer coordinates below \<open>2 ^ 51\<close> in magnitude nothing is rounded and the two results
  are these numbers exactly. In the region from \<open>(0, 0)\<close> to \<open>(800, 600)\<close> the position
  \<open>(-10, 300)\<close> is wrapped to \<open>(790, 300)\<close>.
\<close>

theorem wrapBody_reflects_each_axis:
  assumes "vx (min_pt (bounds w)) < vx (max_pt (bounds w))"
      and "vy (min_pt (bounds w)) < vy (max_pt (bounds w))"
  shows "(vx (position b) < vx (min_pt (bounds w)) \<longrightarrow>
            vx (position (wrapBody w b)) =
              dsub (vx (max_pt (bounds w))) (dsub (vx (min_pt (bounds w))) (vx (position b)))) \<and>
         (vx (position b) > vx (max_pt (bounds w)) \<longrightarrow>
            vx (position (wrapBody w b)) =
              dadd (vx (min_pt (bounds w))) (dsub (vx (position b)) (vx (max_pt (bounds w))))) \<and>
         (vx (min_pt (bounds w)) \<le> vx (position b) \<and> vx (position b) \<le> vx (max_pt (bounds w)) \<longrightarrow>
            vx (position (wrapBody w b)) = vx (position b)) \<and>
         (vy (position b) < vy (min_pt (bounds w)) \<longrightarrow>
            vy (position (wrapBody w b)) =
              dsub (vy (max_pt (bounds w))) (dsub (vy (min_pt (bounds w))) (vy (position b)))) \<and>
         (vy (position b) > vy (max_pt (bounds w)) \<longrightarrow>
            vy (position (wrapBody w b)) =
              dadd (vy (min_pt (bounds w))) (dsub (vy (position b)) (vy (max_pt (bounds w))))) \<and>
         (vy (min_pt (bounds w)) \<le> vy (position b) \<and> vy (position b) \<le> vy (max_pt (bounds w)) \<longrightarrow>
            vy (position (wrapBody w b)) = vy (position b)) \<and>
         (vx (position b) \<in> \<int> \<and> vx (min_pt (bounds w)) \<in> \<int> \<and> vx (max_pt (bounds w)) \<in> \<int> \<and>
          \<bar>vx (position b)\<bar> < 2 ^ 51 \<and> \<bar>vx (min_pt (bounds w))\<bar> < 2 ^ 51 \<and>
          \<bar>vx (max_pt (bounds w))\<bar> < 2 ^ 51 \<longrightarrow>
            (vx (position b) < vx (min_pt (bounds w)) \<longrightarrow>
               vx (position (wrapBody w b)) =
                 vx (max_pt (bounds w)) - (vx (min_pt (bounds w)) - vx (position b))) \<and>
            (vx (position b) > vx (max_pt (bounds w)) \<longrightarrow>
               vx (position (wrapBody w b)) =
                 vx (min_pt (bounds w)) + (vx (position b) - vx (max_pt (bounds w))))) \<and>
         (vy (position b) \<in> \<int> \<and> vy (min_pt (bounds w)) \<in> \<int> \<and> vy (max_pt (bounds w)) \<in> \<int> \<and>
          \<bar>vy (position b)\<bar> < 2 ^ 51 \<and> \<bar>vy (min_pt (bounds w))\<bar> < 2 ^ 51 \<and>
          \<bar>vy (max_pt (bounds w))\<bar> < 2 ^ 51 \<longrightarrow>
            (vy (position b) < vy (min_pt (bounds w)) \<longrightarrow>
               vy (position (wrapBody w b)) =
                 vy (max_pt (bounds w)) - (vy (min_pt (bounds w)) - vy (position b))) \<and>
            (vy (position b) > vy (max_pt (bounds w)) \<longrightarrow>
               vy (position (wrapBody w b)) =
                 vy (min_pt (bounds w)) + (vy (position b) - vy (max_pt (bounds w))))) \<and>
         position (wrapBody example_bounds (example_ball i (-10) 300)) = \<lparr>vx = 790, vy = 300\<rparr>"
  (is "?X1 \<and> ?X2 \<and> ?X3 \<and> ?Y1 \<and> ?Y2 \<and> ?Y3 \<and> ?XI \<and> ?YI \<and> ?S")
proof -
  have X1: ?X1 by (simp add: wrapBody_vx)
  have X2: ?X2 using assms(1) by (simp add: wrapBody_vx)
  have X3: ?X3 by (simp add: wrapBody_vx)
  have Y1: ?Y1 by (simp add: wrapBody_vy)
  have Y2: ?Y2 using assms(2) by (simp add: wrapBody_vy)
  have Y3: ?Y3 by (simp add: wrapBody_vy)
  have XI: ?XI using assms(1) by (simp add: wrapBody_vx reflect_below_exact reflect_above_exact)
  have YI: ?YI using assms(2) by (simp add: wrapBody_vy reflect_below_exact reflect_above_exact)
  have "dsub 0 (- 10) = 10" by (simp add: dsub_int)
  moreover have "dsub 800 10 = 790" by (simp add: dsub_int)
  ultimately have S: ?S
    by (simp add: wrapBody_def wrapBody_x_def wrapBody_y_def setPosition_def
        example_bounds_def example_ball_def)
  show ?thesis
    by (intro conjI) (rule X1 X2 X3 Y1 Y2 Y3 XI YI S)+
qed

theorem wrapBody_reflects_each_axis_witness:
  "vx (min_pt (bounds example_bounds)) < vx (max_pt (bounds example_bounds)) \<and>
   vy (min_pt (bounds example_bounds)) < vy (max_pt (bounds example_bounds)) \<and>
   vx (position (example_ball 7 (-10) 650)) < vx (min_pt (bounds example_bounds)) \<and>
   vy (position (example_ball 7 (-10) 650)) > vy (max_pt (bounds example_bounds)) \<and>
   vx (position (wrapBody example_bounds (example_ball 7 (-10) 650))) = 790 \<and>
   vy (position (wrapBody example_bounds (example_ball 7 (-10) 650))) = 50"
proof -
  have given: "vx (min_pt (bounds example_bounds)) = 0" "vx (max_pt (bounds example_bounds)) = 800"
    "vy (min_pt (bounds example_bounds)) = 0" "vy (max_pt (bounds example_bounds)) = 600"
    "vx (position (example_ball 7 (-10) 650)) = - 10"
    "vy (position (example_ball 7 (-10) 650)) = 650"
    by (simp_all add: example_bounds_def example_ball_def)
  from wrapBody_reflects_each_axis [of example_bounds "example_ball 7 (-10) 650"]
  show ?thesis
    unfolding given by (simp add: dsub_int dadd_int)
qed















section \<open>The containment tests of the box\<close>

text \<open>
  Claim C5. The containment test is strict on all four sides: a centre strictly inside
  the region of the box is contained, and a centre on the line of any of the four edges
  is not. The same holds for the settled test and the region without its upper 85 units.
\<close>

theorem containment_is_strict:
  "(box_x (boxDimensions bb) < vx (position b) \<and>
    vx (position b) < box_x (boxDimensions bb) + box_width (boxDimensions bb) \<and>
    box_y (boxDimensions bb) < vy (position b) \<and>
    vy (position b) < box_y (boxDimensions bb) + box_height (boxDimensions bb)
      \<longrightarrow> isBodyInsideBox bb b) \<and>
   (vx (position b) = box_x (boxDimensions bb) \<or>
    vx (position b) = box_x (boxDimensions bb) + box_width (boxDimensions bb) \<or>
    vy (position b) = box_y (boxDimensions bb) \<or>
    vy (position b) = box_y (boxDimensions bb) + box_height (boxDimensions bb)
      \<longrightarrow> \<not> isBodyInsideBox bb b) \<and>
   (box_x (boxDimensions bb) < vx (position b) \<and>
    vx (position b) < box_x (boxDimensions bb) + box_width (boxDimensions bb) \<and>
    box_y (boxDimensions bb) + 85 < vy (position b) \<and>
    vy (position b) < box_y (boxDimensions bb) + box_height (boxDimensions bb)
      \<longrightarrow> isBodyInBox bb b) \<and>
   (vx (position b) = box_x (boxDimensions bb) \<or>
    vx (position b) = box_x (boxDimensions bb) + box_width (boxDimensions bb) \<or>
    vy (position b) = box_y (boxDimensions bb) + 85 \<or>
    vy (position b) = box_y (boxDimensions bb) + box_height (boxDimensions bb)
      \<longrightarrow> \<not> isBodyInBox bb b)"
  unfolding isBodyInsideBox_def isBodyInBox_def by linarith

theorem containment_is_strict_witness:
  "isBodyInsideBox example_box (example_ball 7 750 420) \<and>
   vx (position (example_ball 8 700 420)) = box_x (boxDimensions example_box) \<and>
   \<not> isBodyInsideBox example_box (example_ball 8 700 420) \<and>
   isBodyInBox example_box (example_ball 7 750 480) \<and>
   vy (position (example_ball 8 750 455)) = box_y (boxDimensions example_box) + 85 \<and>
   \<not> isBodyInBox example_box (example_ball 8 750 455)"
  using containment_is_strict [of example_box "example_ball 7 750 420"]
        containment_is_strict [of example_box "example_ball 8 700 420"]
        containment_is_strict [of example_box "example_ball 7 750 480"]
        containment_is_strict [of example_box "example_ball 8 750 455"]
  by (simp add: example_box_def example_ball_def)

section \<open>Resetting the game\<close>

text \<open>
  Claim C8. \<open>resetGame\<close> sets the score and the attempts to 0 and clears the game-over
  flag, from every state, also from one where the game is over; the two displays show 0.
\<close>

theorem resetGame_zeroes:
  "score (gm (resetGame s)) = 0 \<and>
   attempts (gm (resetGame s)) = 0 \<and>
   isGameOver (gm (resetGame s)) = False \<and>
   isGameOver (gm (resetGame (s\<lparr>gm := (gm s)\<lparr>isGameOver := True\<rparr>\<rparr>))) = False \<and>
   scoreElement (page (resetGame s)) = 0 \<and>
   attemptsElement (page (resetGame s)) = 0"
  by (simp add: resetGame_def resetScore_def resetAttempts_def updateScoreDisplay_def
      updateAttemptsDisplay_def Let_def)

theorem resetGame_zeroes_witness:
  "isGameOver (gm (addScore 1 (setInitialBodyCount 1 (example_state [])))) = True \<and>
   score (gm (addScore 1 (setInitialBodyCount 1 (example_state [])))) = 1 \<and>
   score (gm (resetGame (addScore 1 (setInitialBodyCount 1 (example_state []))))) = 0 \<and>
   attempts (gm (resetGame (addScore 1 (setInitialBodyCount 1 (example_state []))))) = 0 \<and>
   isGameOver (gm (resetGame (addScore 1 (setInitialBodyCount 1 (example_state []))))) = False"
  using resetGame_zeroes [of "addScore 1 (setInitialBodyCount 1 (example_state []))"]
  by (simp add: addScore_def setInitialBodyCount_def checkGameOver_def console_log_def
      updateScoreDisplay_def showGameOverModal_def getAllBodies_def example_state_def
      example_walls_def example_bottomBox_def example_leftBox_def example_rightBox_def)

lemma gm_resetGame:
  "gm (resetGame s) = (gm s)\<lparr>score := 0, attempts := 0, isGameOver := False\<rparr>"
  by (simp add: resetGame_def resetScore_def resetAttempts_def updateScoreDisplay_def
      updateAttemptsDisplay_def Let_def)

lemma worlds_resetGame: "worlds (resetGame s) = worlds s"
  by (simp add: resetGame_def resetScore_def resetAttempts_def updateScoreDisplay_def
      updateAttemptsDisplay_def Let_def)

lemma console_resetGame: "console (resetGame s) = console s"
  by (simp add: resetGame_def resetScore_def resetAttempts_def updateScoreDisplay_def
      updateAttemptsDisplay_def Let_def)

lemma isGameOver_checkGameOver:
  "isGameOver (gm (checkGameOver s)) =
     (isGameOver (gm s) \<or>
      (case engine (gm s) of
         None \<Rightarrow> False
       | Some e \<Rightarrow> filter (\<lambda>b. \<not> isStatic b) (worlds s e) = [] \<and> initialBodyCount (gm s) > 0))"
  by (simp add: checkGameOver_def getAllBodies_def showGameOverModal_def console_log_def
      Let_def split: option.splits)

text \<open>
  Claim C10. \<open>resetGame\<close> changes the score, the attempts and the game-over flag of the
  \<open>GameManager\<close> and nothing else of it: the initial body count, the engine reference
  and the restart callback stay, as do the worlds and the console. After a reset
  \<open>checkGameOver\<close> still tests the initial body count set before, until
  \<open>setInitialBodyCount\<close> sets another one.
\<close>

theorem resetGame_frame:
  "gm (resetGame s) = (gm s)\<lparr>score := 0, attempts := 0, isGameOver := False\<rparr> \<and>
   initialBodyCount (gm (resetGame s)) = initialBodyCount (gm s) \<and>
   engine (gm (resetGame s)) = engine (gm s) \<and>
   restartCallback (gm (resetGame s)) = restartCallback (gm s) \<and>
   worlds (resetGame s) = worlds s \<and>
   console (resetGame s) = console s \<and>
   isGameOver (gm (checkGameOver (resetGame s))) =
     (case engine (gm s) of
        None \<Rightarrow> False
      | Some e \<Rightarrow> filter (\<lambda>b. \<not> isStatic b) (worlds s e) = [] \<and> initialBodyCount (gm s) > 0) \<and>
   isGameOver (gm (checkGameOver (setInitialBodyCount n (resetGame s)))) =
     (case engine (gm s) of
        None \<Rightarrow> False
      | Some e \<Rightarrow> filter (\<lambda>b. \<not> isStatic b) (worlds s e) = [] \<and> n > 0)"
  by (simp add: isGameOver_checkGameOver gm_resetGame worlds_resetGame console_resetGame
      setInitialBodyCount_def console_log_def split: option.splits)

theorem resetGame_frame_witness:
  "initialBodyCount (gm (resetGame (setInitialBodyCount 3 (example_state [])))) = 3 \<and>
   engine (gm (resetGame (setInitialBodyCount 3 (example_state [])))) = Some 0 \<and>
   isGameOver (gm (checkGameOver (resetGame (setInitialBodyCount 3 (example_state []))))) = True \<and>
   isGameOver (gm (checkGameOver
     (setInitialBodyCount 0 (resetGame (setInitialBodyCount 3 (example_state [])))))) = False"
proof -
  let ?s = "setInitialBodyCount 3 (example_state [])"
  have before: "initialBodyCount (gm ?s) = 3" "engine (gm ?s) = Some 0"
    "filter (\<lambda>b. \<not> isStatic b) (worlds ?s 0) = []"
    by (simp_all add: setInitialBodyCount_def console_log_def example_state_def
        example_walls_def example_bottomBox_def example_leftBox_def example_rightBox_def)
  from resetGame_frame [of ?s 0] show ?thesis
    using before by simp
qed

section \<open>The two tests on the geometry of the source\<close>

lemma boxDimensions_createBoxParts:
  "boxDimensions (fst (createBoxParts bb s)) =
     \<lparr>box_x = width bb - 505 / 12 - 180, box_y = height bb - 505 / 12 - 140,
      box_width = 180, box_height = 140\<rparr>"
  by (simp add: createBoxParts_def Let_def split: prod.splits)

lemma scenario_tests:
  "isBodyInBox example_box (example_ball i 750 480) \<and>
   isBodyInsideBox example_box (example_ball i 750 480) \<and>
   isBodyInsideBox example_box (example_ball i 750 420) \<and>
   \<not> isBodyInBox example_box (example_ball i 750 420) \<and>
   isBodyInsideBox example_box (example_ball i 750 430) \<and>
   \<not> isBodyInBox example_box (example_ball i 750 430)"
  by (simp add: isBodyInBox_def isBodyInsideBox_def example_box_def example_ball_def)

lemma scenario_polling_collects:
  "worlds (checkBodiesInBox example_box (example_state [example_ball i 750 480])) 0 = example_walls \<and>
   score (gm (checkBodiesInBox example_box (example_state [example_ball i 750 480]))) = 1"
  by (simp add: checkBodiesInBox_def getAllBodies_def bb_engine_example_box
      worlds_example_state static_example_walls scenario_tests isStatic_example_ball ball_not_wall remove1_append
      worlds_console_log gm_console_log worlds_addScore score_addScore worlds_removeBody gm_removeBody
      score_example_state)


lemma scenario_polling_leaves:
  "checkBodiesInBox example_box (example_state [example_ball i 750 430]) =
     example_state [example_ball i 750 430]"
  by (simp add: checkBodiesInBox_def getAllBodies_def bb_engine_example_box
      worlds_example_state static_example_walls scenario_tests isStatic_example_ball)

lemma walls_in_boxParts:
  "example_bottomBox \<in> set (boxParts example_box)"
  "example_leftBox \<in> set (boxParts example_box)"
  "example_rightBox \<in> set (boxParts example_box)"
  by (simp_all add: example_box_def example_walls_def)

lemma scenario_collision_collects:
  "worlds (handleCollision example_box
      [(example_bottomBox, example_ball i 750 420)]
      (example_state [example_ball i 750 420])) 0 = example_walls \<and>
   score (gm (handleCollision example_box
      [(example_bottomBox, example_ball i 750 420)]
      (example_state [example_ball i 750 420]))) = 1"
  by (simp add: Let_def walls_in_boxParts bb_engine_example_box
      worlds_example_state scenario_tests isStatic_example_ball ball_not_wall remove1_append
      worlds_checkGameOver score_checkGameOver
      worlds_addScore score_addScore worlds_removeBody gm_removeBody
      score_example_state)

text \<open>
  Claim C6. The settled test and the strict test are two tests on the same box, and a
  centre that passes the settled test passes the strict one. On the box that
  \<open>createBoxParts\<close> computes (height 140, inset 85) both tests are passed by some
  centre. On the box from \<open>(700, 370)\<close> to \<open>(880, 510)\<close>, which \<open>createBoxParts\<close>
  computes for the canvas of \<open>example_box\<close>: the centre \<open>(750, 480)\<close> passes the
  settled test and the polling pass collects the body; the centre \<open>(750, 420)\<close> passes
  the strict test and not the settled one, and the collision listener collects the body;
  the centre \<open>(750, 430)\<close> passes the strict test and not the settled one, and the
  polling pass leaves the state as it is.
\<close>

theorem settled_within_strict:
  "(isBodyInBox bb b \<longrightarrow> isBodyInsideBox bb b) \<and>
   box_height (boxDimensions (fst (createBoxParts bb s))) = 140 \<and>
   isBodyInBox (fst (createBoxParts bb s))
     (example_ball i (width bb - 505 / 12 - 90) (height bb - 505 / 12 - 40)) \<and>
   isBodyInsideBox (fst (createBoxParts bb s))
     (example_ball i (width bb - 505 / 12 - 90) (height bb - 505 / 12 - 100)) \<and>
   boxDimensions (fst (createBoxParts example_box s)) = boxDimensions example_box \<and>
   boxDimensions example_box = \<lparr>box_x = 700, box_y = 370, box_width = 180, box_height = 140\<rparr> \<and>
   isBodyInBox example_box (example_ball i 750 480) \<and>
   isBodyInsideBox example_box (example_ball i 750 420) \<and>
   \<not> isBodyInBox example_box (example_ball i 750 420) \<and>
   isBodyInsideBox example_box (example_ball i 750 430) \<and>
   \<not> isBodyInBox example_box (example_ball i 750 430) \<and>
   worlds (checkBodiesInBox example_box (example_state [example_ball i 750 480])) 0 = example_walls \<and>
   score (gm (checkBodiesInBox example_box (example_state [example_ball i 750 480]))) = 1 \<and>
   worlds (handleCollision example_box
      [(example_bottomBox, example_ball i 750 420)]
      (example_state [example_ball i 750 420])) 0 = example_walls \<and>
   score (gm (handleCollision example_box
      [(example_bottomBox, example_ball i 750 420)]
      (example_state [example_ball i 750 420]))) = 1 \<and>
   checkBodiesInBox example_box (example_state [example_ball i 750 430]) =
     example_state [example_ball i 750 430]"
proof -
  have "isBodyInBox bb b \<longrightarrow> isBodyInsideBox bb b"
    by (simp add: isBodyInBox_def isBodyInsideBox_def)
  moreover have "isBodyInBox (fst (createBoxParts bb s))
     (example_ball i (width bb - 505 / 12 - 90) (height bb - 505 / 12 - 40))"
    by (simp add: isBodyInBox_def boxDimensions_createBoxParts example_ball_def)
  moreover have "isBodyInsideBox (fst (createBoxParts bb s))
     (example_ball i (width bb - 505 / 12 - 90) (height bb - 505 / 12 - 100))"
    by (simp add: isBodyInsideBox_def boxDimensions_createBoxParts example_ball_def)
  moreover have "boxDimensions (fst (createBoxParts example_box s)) = boxDimensions example_box"
    by (simp add: boxDimensions_createBoxParts) (simp add: example_box_def)
  moreover have "boxDimensions example_box =
      \<lparr>box_x = 700, box_y = 370, box_width = 180, box_height = 140\<rparr>"
    by (simp add: example_box_def)
  ultimately show ?thesis
    using scenario_tests [of i] scenario_polling_collects [of i]
      scenario_collision_collects [of i] scenario_polling_leaves [of i]
    by (simp add: boxDimensions_createBoxParts)
qed

theorem settled_within_strict_witness:
  "isBodyInBox example_box (example_ball 7 750 480) \<and>
   isBodyInsideBox example_box (example_ball 7 750 480)"
  using settled_within_strict [of example_box "example_ball 7 750 480"]
  by simp

section \<open>The score\<close>

lemma score_addAttempt: "score (gm (addAttempt n s)) = score (gm s)"
  by (simp add: addAttempt_def console_log_def updateAttemptsDisplay_def)

lemma score_setInitialBodyCount: "score (gm (setInitialBodyCount n s)) = score (gm s)"
  by (simp add: setInitialBodyCount_def console_log_def)

lemma score_setEngine: "score (gm (setEngine e s)) = score (gm s)"
  by (simp add: setEngine_def)

lemma gm_addBody: "gm (addBody e bs s) = gm s"
  by (simp add: addBody_def)

lemma score_run_call:
  assumes "\<not> is_reset c" and "\<forall>n. c = AddScore n \<longrightarrow> 0 \<le> n"
  shows "score (gm s) \<le> score (gm (run_call c s))"
  using assms
  by (cases c)
     (simp_all add: score_addScore score_addAttempt score_checkGameOver
        score_setInitialBodyCount score_setEngine gm_addBody gm_removeBody)

lemma score_run_calls:
  assumes "\<forall>c\<in>set cs. \<not> is_reset c" and "\<forall>n. AddScore n \<in> set cs \<longrightarrow> 0 \<le> n"
  shows "score (gm s) \<le> score (gm (run_calls cs s))"
  using assms
proof (induction cs arbitrary: s)
  case Nil
  show ?case by simp
next
  case (Cons c cs)
  have "score (gm s) \<le> score (gm (run_call c s))"
    using Cons.prems by (intro score_run_call) auto
  also have "\<dots> \<le> score (gm (run_calls cs (run_call c s)))"
    using Cons.prems by (intro Cons.IH) auto
  finally show ?case by simp
qed

text \<open>
  Claim C7 as stated fails: \<open>addScore\<close> adds its argument, whatever its sign, and
  \<open>addScore(-1)\<close> takes the score of a fresh game from 0 to -1.
\<close>

theorem addScore_negative_counterexample:
  "score (gm (run_calls [AddScore (- 1)] (example_state []))) < score (gm (example_state []))"
  by (simp add: score_addScore score_example_state)

text \<open>
  Claim C7, amended. \<open>addScore(points)\<close> adds \<open>points\<close> to the score, and
  \<open>addAttempt\<close> and \<open>checkGameOver\<close> leave it as it is. So a call other than a reset
  does not decrease the score when the points of an \<open>addScore\<close> are not negative, as with
  the default of 1 point, and neither does a sequence of such calls.
\<close>

theorem score_never_decreases:
  "score (gm (addScore points s)) = score (gm s) + points \<and>
   score (gm (addAttempt count s)) = score (gm s) \<and>
   score (gm (checkGameOver s)) = score (gm s) \<and>
   (\<not> is_reset c \<and> (\<forall>n. c = AddScore n \<longrightarrow> 0 \<le> n) \<longrightarrow>
      score (gm s) \<le> score (gm (run_call c s))) \<and>
   ((\<forall>c\<in>set cs. \<not> is_reset c) \<and> (\<forall>n. AddScore n \<in> set cs \<longrightarrow> 0 \<le> n) \<longrightarrow>
      score (gm s) \<le> score (gm (run_calls cs s)))"
  using score_run_call [of c s] score_run_calls [of cs s]
  by (simp add: score_addScore score_addAttempt score_checkGameOver)

theorem score_never_decreases_witness:
  "score (gm (example_state [])) = 0 \<and>
   score (gm (run_call (AddScore 1) (example_state []))) = 1 \<and>
   score (gm (example_state []))
     \<le> score (gm (run_calls [AddScore 1, AddAttempt 1, CheckGameOver, AddScore 0] (example_state [])))"
  using score_never_decreases [of 1 "example_state []" 1 "AddScore 1"
          "[AddScore 1, AddAttempt 1, CheckGameOver, AddScore 0]"]
  by (simp add: score_example_state)

section \<open>The game-over flag\<close>

lemma checkGameOver_over: "isGameOver (gm s) \<Longrightarrow> checkGameOver s = s"
  by (simp add: checkGameOver_def)

lemma engine_checkGameOver: "engine (gm (checkGameOver s)) = engine (gm s)"
  by (simp add: checkGameOver_def showGameOverModal_def console_log_def Let_def
      split: option.splits)

lemma initialBodyCount_checkGameOver:
  "initialBodyCount (gm (checkGameOver s)) = initialBodyCount (gm s)"
  by (simp add: checkGameOver_def showGameOverModal_def console_log_def Let_def
      split: option.splits)

lemma console_checkGameOver:
  "console (checkGameOver s) =
     (if \<not> isGameOver (gm s) \<and> isGameOver (gm (checkGameOver s))
      then console s @ [GameOverAllCollected] else console s)"
  by (simp add: checkGameOver_def showGameOverModal_def console_log_def Let_def
      split: option.splits)

lemma isGameOver_addScore:
  "isGameOver (gm (addScore points s)) =
     (isGameOver (gm s) \<or>
      (case engine (gm s) of
         None \<Rightarrow> False
       | Some e \<Rightarrow> filter (\<lambda>b. \<not> isStatic b) (worlds s e) = [] \<and> initialBodyCount (gm s) > 0))"
  by (simp add: addScore_def isGameOver_checkGameOver console_log_def updateScoreDisplay_def
      split: option.splits)

lemma engine_addScore: "engine (gm (addScore points s)) = engine (gm s)"
  by (simp add: addScore_def engine_checkGameOver console_log_def updateScoreDisplay_def)

lemma initialBodyCount_addScore:
  "initialBodyCount (gm (addScore points s)) = initialBodyCount (gm s)"
  by (simp add: addScore_def initialBodyCount_checkGameOver console_log_def
      updateScoreDisplay_def)

lemma count_GameOver_addScore:
  "count_list (console (addScore points s)) GameOverAllCollected =
     count_list (console s) GameOverAllCollected +
       (if \<not> isGameOver (gm s) \<and> isGameOver (gm (addScore points s)) then 1 else 0)"
  by (simp add: addScore_def console_checkGameOver console_log_def updateScoreDisplay_def)

lemma count_GameOver_checkGameOver:
  "count_list (console (checkGameOver s)) GameOverAllCollected =
     count_list (console s) GameOverAllCollected +
       (if \<not> isGameOver (gm s) \<and> isGameOver (gm (checkGameOver s)) then 1 else 0)"
  by (simp add: console_checkGameOver)

lemma gm_addAttempt_flags:
  "isGameOver (gm (addAttempt n s)) = isGameOver (gm s)"
  "count_list (console (addAttempt n s)) GameOverAllCollected =
     count_list (console s) GameOverAllCollected"
  by (simp_all add: addAttempt_def console_log_def updateAttemptsDisplay_def)

lemma setInitialBodyCount_proj:
  "isGameOver (gm (setInitialBodyCount n s)) = isGameOver (gm s)"
  "engine (gm (setInitialBodyCount n s)) = engine (gm s)"
  "initialBodyCount (gm (setInitialBodyCount n s)) = n"
  "worlds (setInitialBodyCount n s) = worlds s"
  "count_list (console (setInitialBodyCount n s)) GameOverAllCollected =
     count_list (console s) GameOverAllCollected"
  by (simp_all add: setInitialBodyCount_def console_log_def)

lemma setEngine_proj:
  "isGameOver (gm (setEngine e s)) = isGameOver (gm s)"
  "console (setEngine e s) = console s"
  by (simp_all add: setEngine_def)

lemma console_addBody: "console (addBody e bs s) = console s"
  by (simp add: addBody_def)

lemma console_removeBody: "console (removeBody e b s) = console s"
  by (simp add: removeBody_def)

lemma resetGame_flag: "isGameOver (gm (resetGame s)) = False"
  by (simp add: gm_resetGame)

text \<open>A call writes the game-over line exactly when it sets the flag.\<close>

lemma count_GameOver_run_call:
  "count_list (console (run_call c s)) GameOverAllCollected =
     count_list (console s) GameOverAllCollected +
       (if \<not> isGameOver (gm s) \<and> isGameOver (gm (run_call c s)) then 1 else 0)"
  by (cases c)
     (simp_all add: count_GameOver_addScore count_GameOver_checkGameOver gm_addAttempt_flags
        setInitialBodyCount_proj setEngine_proj gm_addBody console_addBody gm_removeBody
        console_removeBody console_resetGame resetGame_flag)

lemma flag_set_by_run_call:
  assumes "\<not> isGameOver (gm s)" and "isGameOver (gm (run_call c s))"
  shows "(c = CheckGameOver \<or> (\<exists>points. c = AddScore points)) \<and>
         0 < initialBodyCount (gm s) \<and>
         (\<exists>e. engine (gm s) = Some e \<and> filter (\<lambda>b. \<not> isStatic b) (worlds s e) = [])"
  using assms
  by (cases c)
     (auto simp add: isGameOver_addScore isGameOver_checkGameOver gm_addAttempt_flags
        setInitialBodyCount_proj setEngine_proj gm_addBody gm_removeBody resetGame_flag
        split: option.splits)

lemma flag_kept_by_run_call:
  "isGameOver (gm s) \<Longrightarrow> \<not> is_reset c \<Longrightarrow> isGameOver (gm (run_call c s))"
  by (cases c)
     (simp_all add: isGameOver_addScore isGameOver_checkGameOver gm_addAttempt_flags
        setInitialBodyCount_proj setEngine_proj gm_addBody gm_removeBody)

lemma over_run_calls:
  assumes "isGameOver (gm s)" and "\<forall>c\<in>set cs. \<not> is_reset c"
  shows "isGameOver (gm (run_calls cs s)) \<and>
         count_list (console (run_calls cs s)) GameOverAllCollected =
           count_list (console s) GameOverAllCollected"
  using assms
proof (induction cs arbitrary: s)
  case Nil
  then show ?case by simp
next
  case (Cons c cs)
  have kept: "isGameOver (gm (run_call c s))"
    using Cons.prems by (simp add: flag_kept_by_run_call)
  have "count_list (console (run_call c s)) GameOverAllCollected =
          count_list (console s) GameOverAllCollected"
    using Cons.prems(1) by (simp add: count_GameOver_run_call)
  moreover have "isGameOver (gm (run_calls cs (run_call c s))) \<and>
      count_list (console (run_calls cs (run_call c s))) GameOverAllCollected =
        count_list (console (run_call c s)) GameOverAllCollected"
    using kept Cons.prems(2) by (intro Cons.IH) auto
  ultimately show ?case by simp
qed

lemma once_run_calls:
  assumes "\<forall>c\<in>set cs. \<not> is_reset c"
  shows "count_list (console (run_calls cs s)) GameOverAllCollected
           \<le> count_list (console s) GameOverAllCollected + 1"
  using assms
proof (induction cs arbitrary: s)
  case Nil
  then show ?case by simp
next
  case (Cons c cs)
  show ?case
  proof (cases "isGameOver (gm (run_call c s))")
    case True
    have "\<forall>c'\<in>set cs. \<not> is_reset c'" using Cons.prems by simp
    from over_run_calls [OF True this]
    have "count_list (console (run_calls cs (run_call c s))) GameOverAllCollected =
            count_list (console (run_call c s)) GameOverAllCollected" by simp
    then show ?thesis by (simp add: count_GameOver_run_call)
  next
    case False
    have "count_list (console (run_call c s)) GameOverAllCollected =
            count_list (console s) GameOverAllCollected"
      using False by (simp add: count_GameOver_run_call)
    moreover have "count_list (console (run_calls cs (run_call c s))) GameOverAllCollected
        \<le> count_list (console (run_call c s)) GameOverAllCollected + 1"
      using Cons.prems by (intro Cons.IH) auto
    ultimately show ?thesis by simp
  qed
qed


lemmas collect_simps =
  worlds_addScore worlds_removeBody gm_removeBody console_removeBody worlds_checkGameOver
  setInitialBodyCount_proj isGameOver_addScore isGameOver_checkGameOver engine_addScore
  engine_checkGameOver initialBodyCount_addScore initialBodyCount_checkGameOver
  count_GameOver_addScore count_GameOver_checkGameOver filter_remove1

lemma scenario_polling_order:
  assumes "engine (gm s) = Some e" and "\<not> isGameOver (gm s)"
      and "filter (\<lambda>b. \<not> isStatic b) (worlds s e) = [b1, b2, b3]"
  shows "\<not> isGameOver (gm (run_calls
            [SetInitialBodyCount 3, RemoveBody e b1, AddScore 1] s))"
    and "\<not> isGameOver (gm (run_calls
            [SetInitialBodyCount 3, RemoveBody e b1, AddScore 1, RemoveBody e b2, AddScore 1] s))"
    and "isGameOver (gm (run_calls
            [SetInitialBodyCount 3, RemoveBody e b1, AddScore 1, RemoveBody e b2, AddScore 1,
             RemoveBody e b3, AddScore 1] s))"
    and "count_list (console (run_calls
            [SetInitialBodyCount 3, RemoveBody e b1, AddScore 1, RemoveBody e b2, AddScore 1,
             RemoveBody e b3, AddScore 1] s)) GameOverAllCollected =
           count_list (console s) GameOverAllCollected + 1"
    and "isGameOver (gm (run_calls
            [SetInitialBodyCount 3, RemoveBody e b1, AddScore 1, RemoveBody e b2, AddScore 1,
             RemoveBody e b3, AddScore 1, AddScore 1] s))"
    and "count_list (console (run_calls
            [SetInitialBodyCount 3, RemoveBody e b1, AddScore 1, RemoveBody e b2, AddScore 1,
             RemoveBody e b3, AddScore 1, AddScore 1] s)) GameOverAllCollected =
           count_list (console s) GameOverAllCollected + 1"
  using assms by (simp_all add: collect_simps)

lemma scenario_collision_order:
  assumes "engine (gm s) = Some e" and "\<not> isGameOver (gm s)"
      and "filter (\<lambda>b. \<not> isStatic b) (worlds s e) = [b1, b2, b3]"
  shows "\<not> isGameOver (gm (run_calls
            [SetInitialBodyCount 3, AddScore 1, RemoveBody e b1, CheckGameOver] s))"
    and "\<not> isGameOver (gm (run_calls
            [SetInitialBodyCount 3, AddScore 1, RemoveBody e b1, CheckGameOver,
             AddScore 1, RemoveBody e b2, CheckGameOver] s))"
    and "isGameOver (gm (run_calls
            [SetInitialBodyCount 3, AddScore 1, RemoveBody e b1, CheckGameOver,
             AddScore 1, RemoveBody e b2, CheckGameOver,
             AddScore 1, RemoveBody e b3, CheckGameOver] s))"
    and "count_list (console (run_calls
            [SetInitialBodyCount 3, AddScore 1, RemoveBody e b1, CheckGameOver,
             AddScore 1, RemoveBody e b2, CheckGameOver,
             AddScore 1, RemoveBody e b3, CheckGameOver, AddScore 1] s)) GameOverAllCollected =
           count_list (console s) GameOverAllCollected + 1"
  using assms by (simp_all add: collect_simps)


text \<open>
  Claim C1. \<open>checkGameOver\<close> sets the game-over flag exactly when the game is not over
  yet, the engine is set, its world holds no non-static body and the initial body count
  is above 0; once the flag is set \<open>checkGameOver\<close> changes nothing. No call sets the
  flag but \<open>checkGameOver\<close> and \<open>addScore\<close>, which ends with it, and a call writes the
  game-over line to the console exactly when it sets the flag. So a sequence of calls
  without a reset writes that line at most once, and not at all when the game is over
  already. After \<open>setInitialBodyCount(3)\<close> on a world of three non-static bodies, with
  one body removed before each \<open>addScore\<close> (the polling pass) or between \<open>addScore\<close>
  and \<open>checkGameOver\<close> (the collision listener), the game is over at the third
  collection and not before, and a fourth \<open>addScore\<close> writes no second line.
\<close>

theorem game_over_fires_once:
  "isGameOver (gm (checkGameOver s)) =
     (isGameOver (gm s) \<or>
      (case engine (gm s) of
         None \<Rightarrow> False
       | Some e \<Rightarrow> filter (\<lambda>b. \<not> isStatic b) (worlds s e) = [] \<and> initialBodyCount (gm s) > 0)) \<and>
   (isGameOver (gm s) \<longrightarrow> checkGameOver s = s) \<and>
   (\<not> isGameOver (gm s) \<and> isGameOver (gm (run_call c s)) \<longrightarrow>
      (c = CheckGameOver \<or> (\<exists>points. c = AddScore points)) \<and>
      0 < initialBodyCount (gm s) \<and>
      (\<exists>e. engine (gm s) = Some e \<and> filter (\<lambda>b. \<not> isStatic b) (worlds s e) = [])) \<and>
   count_list (console (run_call c s)) GameOverAllCollected =
     count_list (console s) GameOverAllCollected +
       (if \<not> isGameOver (gm s) \<and> isGameOver (gm (run_call c s)) then 1 else 0) \<and>
   ((\<forall>c\<in>set cs. \<not> is_reset c) \<longrightarrow>
      count_list (console (run_calls cs s)) GameOverAllCollected
        \<le> count_list (console s) GameOverAllCollected + 1) \<and>
   (isGameOver (gm s) \<and> (\<forall>c\<in>set cs. \<not> is_reset c) \<longrightarrow>
      isGameOver (gm (run_calls cs s)) \<and>
      count_list (console (run_calls cs s)) GameOverAllCollected =
        count_list (console s) GameOverAllCollected) \<and>
   (engine (gm s) = Some e \<and> \<not> isGameOver (gm s) \<and>
    filter (\<lambda>b. \<not> isStatic b) (worlds s e) = [b1, b2, b3] \<longrightarrow>
      \<not> isGameOver (gm (run_calls
          [SetInitialBodyCount 3, RemoveBody e b1, AddScore 1] s)) \<and>
      \<not> isGameOver (gm (run_calls
          [SetInitialBodyCount 3, RemoveBody e b1, AddScore 1, RemoveBody e b2, AddScore 1] s)) \<and>
      isGameOver (gm (run_calls
          [SetInitialBodyCount 3, RemoveBody e b1, AddScore 1, RemoveBody e b2, AddScore 1,
           RemoveBody e b3, AddScore 1] s)) \<and>
      count_list (console (run_calls
          [SetInitialBodyCount 3, RemoveBody e b1, AddScore 1, RemoveBody e b2, AddScore 1,
           RemoveBody e b3, AddScore 1] s)) GameOverAllCollected =
        count_list (console s) GameOverAllCollected + 1 \<and>
      isGameOver (gm (run_calls
          [SetInitialBodyCount 3, RemoveBody e b1, AddScore 1, RemoveBody e b2, AddScore 1,
           RemoveBody e b3, AddScore 1, AddScore 1] s)) \<and>
      count_list (console (run_calls
          [SetInitialBodyCount 3, RemoveBody e b1, AddScore 1, RemoveBody e b2, AddScore 1,
           RemoveBody e b3, AddScore 1, AddScore 1] s)) GameOverAllCollected =
        count_list (console s) GameOverAllCollected + 1 \<and>
      \<not> isGameOver (gm (run_calls
          [SetInitialBodyCount 3, AddScore 1, RemoveBody e b1, CheckGameOver] s)) \<and>
      \<not> isGameOver (gm (run_calls
          [SetInitialBodyCount 3, AddScore 1, RemoveBody e b1, CheckGameOver,
           AddScore 1, RemoveBody e b2, CheckGameOver] s)) \<and>
      isGameOver (gm (run_calls
          [SetInitialBodyCount 3, AddScore 1, RemoveBody e b1, CheckGameOver,
           AddScore 1, RemoveBody e b2, CheckGameOver,
           AddScore 1, RemoveBody e b3, CheckGameOver] s)) \<and>
      count_list (console (run_calls
          [SetInitialBodyCount 3, AddScore 1, RemoveBody e b1, CheckGameOver,
           AddScore 1, RemoveBody e b2, CheckGameOver,
           AddScore 1, RemoveBody e b3, CheckGameOver, AddScore 1] s)) GameOverAllCollected =
        count_list (console s) GameOverAllCollected + 1)"
  (is "?A \<and> ?B \<and> ?C \<and> ?D \<and> ?E \<and> ?F \<and> (?H \<longrightarrow> ?K)")
proof -
  have A: ?A by (rule isGameOver_checkGameOver)
  have B: ?B by (simp add: checkGameOver_over)
  have C: ?C using flag_set_by_run_call [of s c] by blast
  have D: ?D by (rule count_GameOver_run_call)
  have E: ?E using once_run_calls [of cs s] by blast
  have F: ?F using over_run_calls [of s cs] by blast
  have G: "?H \<longrightarrow> ?K"
  proof (intro impI, elim conjE)
    assume h: "engine (gm s) = Some e" "\<not> isGameOver (gm s)"
      "filter (\<lambda>b. \<not> isStatic b) (worlds s e) = [b1, b2, b3]"
    show "?K"
      by (intro conjI scenario_polling_order [OF h] scenario_collision_order [OF h])
  qed
  show ?thesis
    by (intro conjI) (rule A B C D E F G)+
qed

theorem game_over_fires_once_witness:
  "engine (gm (example_state [example_ball 10 100 100, example_ball 11 200 100,
      example_ball 12 300 100])) = Some 0 \<and>
   \<not> isGameOver (gm (run_calls
      [SetInitialBodyCount 3,
       RemoveBody 0 (example_ball 10 100 100), AddScore 1,
       RemoveBody 0 (example_ball 11 200 100), AddScore 1]
      (example_state [example_ball 10 100 100, example_ball 11 200 100,
         example_ball 12 300 100]))) \<and>
   isGameOver (gm (run_calls
      [SetInitialBodyCount 3,
       RemoveBody 0 (example_ball 10 100 100), AddScore 1,
       RemoveBody 0 (example_ball 11 200 100), AddScore 1,
       RemoveBody 0 (example_ball 12 300 100), AddScore 1]
      (example_state [example_ball 10 100 100, example_ball 11 200 100,
         example_ball 12 300 100]))) \<and>
   count_list (console (run_calls
      [SetInitialBodyCount 3,
       RemoveBody 0 (example_ball 10 100 100), AddScore 1,
       RemoveBody 0 (example_ball 11 200 100), AddScore 1,
       RemoveBody 0 (example_ball 12 300 100), AddScore 1, AddScore 1]
      (example_state [example_ball 10 100 100, example_ball 11 200 100,
         example_ball 12 300 100]))) GameOverAllCollected = 1"
proof -
  let ?s = "example_state [example_ball 10 100 100, example_ball 11 200 100,
      example_ball 12 300 100]"
  have start: "engine (gm ?s) = Some 0" "\<not> isGameOver (gm ?s)" "console ?s = []"
    by (simp_all add: example_state_def)
  have bodies: "filter (\<lambda>b. \<not> isStatic b) (worlds ?s 0) =
      [example_ball 10 100 100, example_ball 11 200 100, example_ball 12 300 100]"
    by (simp add: worlds_example_state static_example_walls isStatic_example_ball)
  from game_over_fires_once [where s = ?s and e = 0 and ?b1.0 = "example_ball 10 100 100"
      and ?b2.0 = "example_ball 11 200 100" and ?b3.0 = "example_ball 12 300 100"
      and c = CheckGameOver and cs = "[]"]
  show ?thesis
    using start bodies by (simp del: run_calls.simps run_call.simps)
qed

section \<open>The polling pass\<close>

text \<open>
  Removing, one after the other, the elements of a list that satisfy \<open>P\<close> leaves the
  elements that do not, also when an element occurs more than once.
\<close>

lemma remove1_after_kept:
  "\<forall>x\<in>set pre. \<not> P x \<Longrightarrow>
   fold remove1 (filter P w) (pre @ w) = pre @ filter (\<lambda>b. \<not> P b) w"
proof (induction w arbitrary: pre)
  case Nil
  show ?case by simp
next
  case (Cons a w)
  show ?case
  proof (cases "P a")
    case True
    with Cons.prems have "a \<notin> set pre" by blast
    then have "remove1 a (pre @ a # w) = pre @ w" by (simp add: remove1_append)
    with True Cons.IH [OF Cons.prems] show ?thesis by simp
  next
    case False
    with Cons.prems have "\<forall>x\<in>set (pre @ [a]). \<not> P x" by simp
    from Cons.IH [OF this] False show ?thesis by simp
  qed
qed

lemma fold_remove1_filter: "fold remove1 (filter P w) w = filter (\<lambda>b. \<not> P b) w"
  using remove1_after_kept [of "[]" P w] by simp

lemma console_addScore:
  "console (addScore points s) =
     console s @ [ScoreIncreased (score (gm s) + points)] @
       (if \<not> isGameOver (gm s) \<and> isGameOver (gm (addScore points s))
        then [GameOverAllCollected] else [])"
  by (simp add: addScore_def console_checkGameOver console_log_def updateScoreDisplay_def)

lemma count_BodyEntered_addScore:
  "count_list (console (addScore points s)) (BodyEntered i) =
     count_list (console s) (BodyEntered i)"
  by (simp add: console_addScore)

lemma worlds_loop:
  "worlds (checkBodiesInBox_loop bb xs s) =
     (worlds s)(bb_engine bb :=
        fold remove1 (filter (isBodyInBox bb) xs) (worlds s (bb_engine bb)))"
proof (induction xs arbitrary: s)
  case Nil
  show ?case by simp
next
  case (Cons b xs)
  show ?case
  proof (cases "isBodyInBox bb b")
    case True
    let ?s1 = "console_log (BodyEntered (body_id b)) (addScore 1 (removeBody (bb_engine bb) b s))"
    have "worlds ?s1 = (worlds s)(bb_engine bb := remove1 b (worlds s (bb_engine bb)))"
      by (simp add: worlds_console_log worlds_addScore worlds_removeBody)
    then have "worlds (checkBodiesInBox_loop bb xs ?s1) =
        (worlds s)(bb_engine bb :=
           fold remove1 (filter (isBodyInBox bb) xs) (remove1 b (worlds s (bb_engine bb))))"
      by (simp add: Cons.IH fun_eq_iff)
    with True show ?thesis by simp
  next
    case False
    then show ?thesis by (simp add: Cons.IH)
  qed
qed

lemma score_loop:
  "score (gm (checkBodiesInBox_loop bb xs s)) =
     score (gm s) + real (length (filter (isBodyInBox bb) xs))"
proof (induction xs arbitrary: s)
  case Nil
  show ?case by simp
next
  case (Cons b xs)
  show ?case
    by (simp add: Cons.IH gm_console_log score_addScore gm_removeBody)
qed

lemma count_BodyEntered_loop:
  "count_list (console (checkBodiesInBox_loop bb xs s)) (BodyEntered i) =
     count_list (console s) (BodyEntered i) +
       length (filter (\<lambda>b. body_id b = i) (filter (isBodyInBox bb) xs))"
proof (induction xs arbitrary: s)
  case Nil
  show ?case by simp
next
  case (Cons b xs)
  show ?case
    by (simp add: Cons.IH console_log_def count_BodyEntered_addScore console_removeBody)
qed

lemma one_with_id:
  assumes "distinct (map body_id w)" and "b \<in> set w"
  shows "length (filter (\<lambda>c. body_id c = body_id b) (filter P w)) = (if P b then 1 else 0)"
  using assms
proof (induction w)
  case Nil
  then show ?case by simp
next
  case (Cons a w)
  show ?case
  proof (cases "a = b")
    case True
    with Cons.prems have fresh: "body_id b \<notin> body_id ` set w" by simp
    have "\<forall>c\<in>set w. body_id c \<noteq> body_id b"
    proof (intro ballI notI)
      fix c
      assume "c \<in> set w" and same: "body_id c = body_id b"
      from \<open>c \<in> set w\<close> have "body_id c \<in> body_id ` set w" by (rule imageI)
      with same fresh show False by simp
    qed
    then have "filter (\<lambda>c. body_id c = body_id b) (filter P w) = []"
      by (simp add: filter_empty_conv)
    with True show ?thesis by simp
  next
    case False
    with Cons.prems have rest: "distinct (map body_id w)" "b \<in> set w" by auto
    with Cons.prems have "body_id a \<noteq> body_id b" by auto
    then have same:
      "filter (\<lambda>c. body_id c = body_id b) (filter P (a # w)) =
       filter (\<lambda>c. body_id c = body_id b) (filter P w)"
      by simp
    show ?thesis unfolding same by (rule Cons.IH [OF rest])
  qed
qed

text \<open>
  Claim C2. After one run of \<open>checkBodiesInBox\<close>, the world of the box's engine is the
  world before without the non-static bodies whose centre passed the settled test, so
  every such body has been removed; the score has gone up by one for each of them; and
  the console has one more line \<open>Body i entered the box!\<close> for each of them. When the
  ids of the bodies in the world are distinct, as Matter.js makes them, that is exactly
  one line for each collected body and none for the others.
\<close>

theorem polling_pass_collects:
  "worlds (checkBodiesInBox bb s) (bb_engine bb) =
     filter (\<lambda>b. \<not> (\<not> isStatic b \<and> isBodyInBox bb b)) (worlds s (bb_engine bb)) \<and>
   (\<forall>b\<in>set (worlds s (bb_engine bb)). \<not> isStatic b \<and> isBodyInBox bb b \<longrightarrow>
      b \<notin> set (worlds (checkBodiesInBox bb s) (bb_engine bb))) \<and>
   score (gm (checkBodiesInBox bb s)) =
     score (gm s) +
       real (length (filter (\<lambda>b. \<not> isStatic b \<and> isBodyInBox bb b) (worlds s (bb_engine bb)))) \<and>
   (\<forall>i. count_list (console (checkBodiesInBox bb s)) (BodyEntered i) =
      count_list (console s) (BodyEntered i) +
        length (filter (\<lambda>b. body_id b = i)
          (filter (\<lambda>b. \<not> isStatic b \<and> isBodyInBox bb b) (worlds s (bb_engine bb))))) \<and>
   (distinct (map body_id (worlds s (bb_engine bb))) \<longrightarrow>
      (\<forall>b\<in>set (worlds s (bb_engine bb)).
         count_list (console (checkBodiesInBox bb s)) (BodyEntered (body_id b)) =
           count_list (console s) (BodyEntered (body_id b)) +
             (if \<not> isStatic b \<and> isBodyInBox bb b then 1 else 0)))"
  (is "?A \<and> ?B \<and> ?C \<and> ?D \<and> ?E")
proof -
  let ?w = "worlds s (bb_engine bb)"
  let ?P = "\<lambda>b. \<not> isStatic b \<and> isBodyInBox bb b"
  have collected: "filter (isBodyInBox bb) (filter (\<lambda>b. \<not> isStatic b) ?w) = filter ?P ?w"
    by simp
  have A: ?A
    by (simp add: checkBodiesInBox_def getAllBodies_def worlds_loop collected
        fold_remove1_filter)
  have B: ?B unfolding A by simp
  have C: ?C
    by (simp add: checkBodiesInBox_def getAllBodies_def score_loop collected)
  have D: ?D
    by (simp add: checkBodiesInBox_def getAllBodies_def count_BodyEntered_loop collected)
  have E: ?E
  proof (intro impI ballI)
    fix b
    assume "distinct (map body_id ?w)" and "b \<in> set ?w"
    from one_with_id [OF this, of ?P]
    show "count_list (console (checkBodiesInBox bb s)) (BodyEntered (body_id b)) =
           count_list (console s) (BodyEntered (body_id b)) +
             (if \<not> isStatic b \<and> isBodyInBox bb b then 1 else 0)"
      using D by simp
  qed
  show ?thesis
    by (intro conjI) (rule A B C D E)+
qed


theorem polling_pass_collects_witness:
  "distinct (map body_id (worlds
      (example_state [example_ball 10 750 480, example_ball 11 750 430, example_ball 12 800 500])
      (bb_engine example_box))) \<and>
   worlds (checkBodiesInBox example_box
      (example_state [example_ball 10 750 480, example_ball 11 750 430, example_ball 12 800 500]))
      (bb_engine example_box) = example_walls @ [example_ball 11 750 430] \<and>
   score (gm (checkBodiesInBox example_box
      (example_state [example_ball 10 750 480, example_ball 11 750 430, example_ball 12 800 500])))
     = 2 \<and>
   count_list (console (checkBodiesInBox example_box
      (example_state [example_ball 10 750 480, example_ball 11 750 430, example_ball 12 800 500])))
      (BodyEntered 10) = 1 \<and>
   count_list (console (checkBodiesInBox example_box
      (example_state [example_ball 10 750 480, example_ball 11 750 430, example_ball 12 800 500])))
      (BodyEntered 11) = 0"
proof -
  let ?s = "example_state
      [example_ball 10 750 480, example_ball 11 750 430, example_ball 12 800 500]"
  have world: "worlds ?s (bb_engine example_box) =
      example_walls @ [example_ball 10 750 480, example_ball 11 750 430, example_ball 12 800 500]"
    by (simp add: bb_engine_example_box worlds_example_state)
  have start: "score (gm ?s) = 0" "console ?s = []"
    by (simp_all add: example_state_def)
  have ids: "body_id (example_ball 10 750 480) = 10" "body_id (example_ball 11 750 430) = 11"
    by (simp_all add: example_ball_def)
  have members: "example_ball 10 750 480 \<in> set (worlds ?s (bb_engine example_box))"
    "example_ball 11 750 430 \<in> set (worlds ?s (bb_engine example_box))"
    by (simp_all add: world)
  have tests: "isBodyInBox example_box (example_ball 10 750 480)"
    "\<not> isBodyInBox example_box (example_ball 11 750 430)"
    "isBodyInBox example_box (example_ball 12 800 500)"
    by (simp_all add: isBodyInBox_def example_box_def example_ball_def)
  have distinct_ids: "distinct (map body_id (worlds ?s (bb_engine example_box)))"
    unfolding world
    by (simp add: example_walls_def example_bottomBox_def example_leftBox_def
        example_rightBox_def example_ball_def)
  have kept: "filter (\<lambda>b. \<not> (\<not> isStatic b \<and> isBodyInBox example_box b))
      (worlds ?s (bb_engine example_box)) = example_walls @ [example_ball 11 750 430]"
    unfolding world
    by (simp add: example_walls_def example_bottomBox_def example_leftBox_def
        example_rightBox_def example_ball_def isBodyInBox_def example_box_def)
  have collected: "filter (\<lambda>b. \<not> isStatic b \<and> isBodyInBox example_box b)
      (worlds ?s (bb_engine example_box)) = [example_ball 10 750 480, example_ball 12 800 500]"
    unfolding world
    by (simp add: example_walls_def example_bottomBox_def example_leftBox_def
        example_rightBox_def example_ball_def isBodyInBox_def example_box_def)
  note pass = polling_pass_collects [of example_box ?s]
  note per_body = pass [THEN conjunct2, THEN conjunct2, THEN conjunct2, THEN conjunct2,
      rule_format, OF distinct_ids]
  have "worlds (checkBodiesInBox example_box ?s) (bb_engine example_box) =
      example_walls @ [example_ball 11 750 430]"
    using pass [THEN conjunct1] unfolding kept .
  moreover have "score (gm (checkBodiesInBox example_box ?s)) = 2"
    using pass [THEN conjunct2, THEN conjunct2, THEN conjunct1] unfolding collected
    by (simp add: start)
  moreover have "count_list (console (checkBodiesInBox example_box ?s)) (BodyEntered 10) = 1"
    using per_body [OF members(1)] by (simp add: start tests isStatic_example_ball ids)
  moreover have "count_list (console (checkBodiesInBox example_box ?s)) (BodyEntered 11) = 0"
    using per_body [OF members(2)] by (simp add: start tests isStatic_example_ball ids)
  ultimately show ?thesis
    using distinct_ids by blast
qed

section \<open>The collision listener\<close>

text \<open>
  Claim C3, at the input it names. A ball of radius 25 centred at \<open>(725, 485)\<close> is in
  the world once, strictly inside the box, and starts to touch the bottom wall and the
  left wall in the same step. With the pair of the bottom wall alone the listener adds
  one point. With both pairs it adds two points for the one ball: the first pair removes
  the ball, the second pair does not look whether the ball is still in the world, adds
  a point again, and removes it again, which changes nothing.
\<close>

theorem collision_listener_scores_twice:
  "count_list (worlds (example_state [example_ball 10 725 485]) 0) (example_ball 10 725 485) = 1 \<and>
   isStatic (example_ball 10 725 485) = False \<and>
   isBodyInsideBox example_box (example_ball 10 725 485) \<and>
   score (gm (example_state [example_ball 10 725 485])) = 0 \<and>
   score (gm (handleCollision example_box
      [(example_bottomBox, example_ball 10 725 485)]
      (example_state [example_ball 10 725 485]))) = 1 \<and>
   score (gm (handleCollision example_box
      [(example_bottomBox, example_ball 10 725 485), (example_leftBox, example_ball 10 725 485)]
      (example_state [example_ball 10 725 485]))) = 2 \<and>
   worlds (handleCollision example_box
      [(example_bottomBox, example_ball 10 725 485), (example_leftBox, example_ball 10 725 485)]
      (example_state [example_ball 10 725 485])) 0 = example_walls"
proof -
  have inside: "isBodyInsideBox example_box (example_ball 10 725 485)"
    by (simp add: isBodyInsideBox_def example_box_def example_ball_def)
  have once: "count_list (worlds (example_state [example_ball 10 725 485]) 0)
      (example_ball 10 725 485) = 1"
    by (simp add: worlds_example_state example_walls_def example_bottomBox_def
        example_leftBox_def example_rightBox_def example_ball_def)
  show ?thesis
    by (simp add: once inside Let_def walls_in_boxParts bb_engine_example_box
        worlds_example_state isStatic_example_ball ball_not_wall remove1_append remove1_idem
        worlds_checkGameOver score_checkGameOver worlds_addScore score_addScore
        worlds_removeBody gm_removeBody score_example_state)
qed

end
